theory Spec2Isabelle
  imports Main "HOL-Library.Char_ord" "HOL-Library.List_Lexorder" "HOL-Library.Multiset"
begin

section \<open>Python strings\<close>

text \<open>
  Python's \<^verbatim>\<open>str.endswith(suffix)\<close>: the last \<open>len(suffix)\<close> characters of the string
  are the suffix. The empty string ends with no non-empty suffix.
\<close>

definition endswith :: "string \<Rightarrow> string \<Rightarrow> bool" where
  "endswith s suf = (length suf \<le> length s \<and> drop (length s - length suf) s = suf)"

section \<open>FormModel\<close>

text \<open>
  The columns of \<^verbatim>\<open>FormModel\<close> (dynamic_forms/models.py, lines 23-41). The column
  \<^verbatim>\<open>name\<close> is called \<open>form_name\<close> here, since \<^verbatim>\<open>FormFieldModel\<close> has a column of
  the same name. \<open>form_pk\<close> is the primary key Django adds.
\<close>

record FormModel =
  form_pk :: nat
  form_name :: string
  submit_url :: string
  success_url :: string
  actions :: "string list"
  form_template :: string
  success_template :: string

text \<open>
  \<^verbatim>\<open>FormModel.save\<close> (lines 54-66). The result is the row handed to
  \<^verbatim>\<open>super(FormModel, self).save\<close>, that is, the row that is written.
  \<^verbatim>\<open>if self.success_url:\<close> tests that the string is not empty.
\<close>

definition FormModel_save :: "FormModel \<Rightarrow> FormModel" where
  "FormModel_save self =
    (let self1 = (if \<not> endswith (submit_url self) ''/''
                  then self\<lparr>submit_url := submit_url self @ ''/''\<rparr>
                  else self)
     in if success_url self1 \<noteq> []
        then (if \<not> endswith (success_url self1) ''/''
              then self1\<lparr>success_url := success_url self1 @ ''/''\<rparr>
              else self1)
        else self1\<lparr>success_url := submit_url self1 @ ''done/''\<rparr>)"

section \<open>Python values and errors\<close>

text \<open>
  The objects \<^verbatim>\<open>json.loads\<close> returns and \<^verbatim>\<open>json.dumps\<close> accepts: \<^verbatim>\<open>None\<close>,
  booleans, numbers, strings, lists and dicts with string keys. The carrier \<open>'n\<close> of
  the numbers (Python's ints and floats) is a parameter: the code under study never
  looks inside a number. A dict is an association list in insertion order; the
  operations below keep its keys distinct, as Python does.
\<close>

datatype 'n json =
    JNull
  | JBool bool
  | JNum 'n
  | JStr string
  | JList "'n json list"
  | JObj "(string \<times> 'n json) list"

text \<open>
  The exceptions that the modelled code can raise or let through. \<open>ValueError\<close> stands
  for \<^verbatim>\<open>ValueError\<close> and its subclasses (\<^verbatim>\<open>json.JSONDecodeError\<close> is one), which an
  \<^verbatim>\<open>except ValueError\<close> clause catches; \<^verbatim>\<open>RecursionError\<close> is not among them.
\<close>

datatype error =
    NotFound
  | AttributeError
  | KeyError
  | TypeError
  | ValueError
  | RecursionError
  | PluginError string

definition dict_keys :: "('k \<times> 'v) list \<Rightarrow> 'k list" where
  "dict_keys d = map fst d"

text \<open>\<^verbatim>\<open>d[k] = v\<close>: an existing key keeps its place and gets the new value, a new key
  goes last.\<close>

fun dict_setitem :: "('k \<times> 'v) list \<Rightarrow> 'k \<Rightarrow> 'v \<Rightarrow> ('k \<times> 'v) list" where
  "dict_setitem [] k v = [(k, v)]"
| "dict_setitem ((k', v') # d) k v =
     (if k' = k then (k, v) # d else (k', v') # dict_setitem d k v)"

text \<open>\<^verbatim>\<open>del d[k]\<close>: raises \<^verbatim>\<open>KeyError\<close> when the key is absent.\<close>

definition dict_delitem :: "('k \<times> 'v) list \<Rightarrow> 'k \<Rightarrow> error + ('k \<times> 'v) list" where
  "dict_delitem d k =
     (if k \<in> set (dict_keys d) then Inr (filter (\<lambda>kv. fst kv \<noteq> k) d) else Inl KeyError)"

text \<open>\<^verbatim>\<open>OrderedDict(pairs)\<close>: the pairs are inserted one after the other.\<close>

definition OrderedDict :: "('k \<times> 'v) list \<Rightarrow> ('k \<times> 'v) list" where
  "OrderedDict pairs = fold (\<lambda>kv d. dict_setitem d (fst kv) (snd kv)) pairs []"

section \<open>The libraries the module imports\<close>

text \<open>
  The functions of the Python standard library and of Django that the module calls
  are not part of the repository; the model takes them as parameters.
  \<^item> \<open>json_loads\<close> is \<^verbatim>\<open>json.loads\<close> on a string: \<open>Inr v\<close> is the decoded value,
    \<open>Inl e\<close> the exception it raises: \<^verbatim>\<open>ValueError\<close> on a text that is not JSON,
    \<^verbatim>\<open>RecursionError\<close> on a text whose containers nest deeper than the interpreter
    allows.
  \<^item> \<open>json_dumps\<close> is \<^verbatim>\<open>json.dumps\<close> on a value of type \<open>'n json\<close>: \<open>Inr text\<close> is
    the serialisation, \<open>Inl e\<close> the exception it raises.
  \<^item> \<open>slugify\<close> is \<^verbatim>\<open>django.template.defaultfilters.slugify\<close>.
  \<^item> \<open>escape\<close> is \<^verbatim>\<open>django.utils.html.escape\<close>.
  \<^item> \<open>force_text\<close> is \<^verbatim>\<open>django.utils.encoding.force_text\<close> on a decoded value; on
    a string (a key of a decoded dict) it is the identity and is not written.
\<close>

record 'n pylib =
  json_loads :: "string \<Rightarrow> error + 'n json"
  json_dumps :: "'n json \<Rightarrow> error + string"
  slugify :: "string \<Rightarrow> string"
  escape :: "string \<Rightarrow> string"
  force_text :: "'n json \<Rightarrow> string"

section \<open>The object store\<close>

text \<open>
  \<^verbatim>\<open>self.options\<close> returns the decoded object itself, not a copy, and callers change
  it in place. The decoded objects therefore live in a store; a reference is the
  address of a cell, and \<open>alloc\<close> takes the next unused address.
\<close>

type_synonym ref = nat

record 'n heap =
  cells :: "ref \<Rightarrow> 'n json"
  next_ref :: ref

definition empty_heap :: "'n heap" where
  "empty_heap = \<lparr>cells = (\<lambda>_. JNull), next_ref = 0\<rparr>"

definition alloc :: "'n heap \<Rightarrow> 'n json \<Rightarrow> ref \<times> 'n heap" where
  "alloc h v = (next_ref h, h\<lparr>cells := (cells h)(next_ref h := v), next_ref := Suc (next_ref h)\<rparr>)"

definition deref :: "'n heap \<Rightarrow> ref \<Rightarrow> 'n json" where
  "deref h r = cells h r"

definition heap_store :: "'n heap \<Rightarrow> ref \<Rightarrow> 'n json \<Rightarrow> 'n heap" where
  "heap_store h r v = h\<lparr>cells := (cells h)(r := v)\<rparr>"

section \<open>The field type registry\<close>

text \<open>
  What the module uses of a registered field type class \<^verbatim>\<open>field_type_cls\<close>:
  the keys of its \<^verbatim>\<open>_meta\<close> dict (the declared option schema), its constructor
  \<^verbatim>\<open>field_type_cls(**kwargs)\<close> and the method \<^verbatim>\<open>contribute_to_form(form)\<close> of the
  constructed field, which changes the form it is given. Both are plugin code and
  may raise.
\<close>

record ('n, 'fld, 'frm) field_type_cls =
  meta_keys :: "string list"
  construct :: "(string \<times> 'n json) list \<Rightarrow> error + 'fld"
  contribute_to_form :: "'fld \<Rightarrow> 'frm \<Rightarrow> error + 'frm"

type_synonym ('n, 'fld, 'frm) registry = "string \<Rightarrow> ('n, 'fld, 'frm) field_type_cls option"

text \<open>
  Modelled from the spec: \<^verbatim>\<open>formfield_registry.get\<close> lives in
  \<^verbatim>\<open>dynamic_forms/formfields.py\<close>, which is not among the sources. The
  specification (section 4.1) says: \<^verbatim>\<open>get(key)\<close> fails with \<^verbatim>\<open>NotFound\<close> if the key is
  unregistered.
\<close>

definition formfield_registry_get ::
  "('n, 'fld, 'frm) registry \<Rightarrow> string \<Rightarrow> error + ('n, 'fld, 'frm) field_type_cls" where
  "formfield_registry_get reg key = (case reg key of None \<Rightarrow> Inl NotFound | Some c \<Rightarrow> Inr c)"

section \<open>FormFieldModel\<close>

text \<open>
  The columns of \<^verbatim>\<open>FormFieldModel\<close> (lines 72-79) and the attribute
  \<^verbatim>\<open>_options_cached\<close> of an instance. \<open>raw_options\<close> is the column \<^verbatim>\<open>_options\<close>
  (a text that may be null), \<open>options_cached\<close> is \<^verbatim>\<open>_options_cached\<close>: \<open>None\<close> when
  the instance has no such attribute, otherwise the reference it holds.
  \<open>field_pk\<close> is the primary key Django adds; it grows with the order of creation.
\<close>

record FormFieldModel =
  field_pk :: nat
  parent_form :: nat
  field_type :: string
  label :: string
  name :: string
  raw_options :: "string option"
  position :: int
  options_cached :: "ref option"

text \<open>
  The getter of the property \<^verbatim>\<open>options\<close> (lines 107-117). When it returns, the result
  holds the reference kept in \<^verbatim>\<open>_options_cached\<close>, the store and the instance as
  they are afterwards. \<^verbatim>\<open>if self._options:\<close> holds for a string that is neither null
  nor empty. The \<^verbatim>\<open>try\<close> block catches \<^verbatim>\<open>ValueError\<close> only: any other exception of
  \<^verbatim>\<open>json.loads\<close> leaves the getter, and the result is then that exception.
\<close>

definition options ::
  "'n pylib \<Rightarrow> 'n heap \<times> FormFieldModel \<Rightarrow> error + (ref \<times> 'n heap \<times> FormFieldModel)" where
  "options L s =
    (case s of (h, self) \<Rightarrow>
      (case options_cached self of
         Some r \<Rightarrow> Inr (r, h, self)
       | None \<Rightarrow>
          (case alloc h (JObj []) of (r0, h0) \<Rightarrow>
            let self0 = self\<lparr>options_cached := Some r0\<rparr> in
            (case raw_options self0 of
               None \<Rightarrow> Inr (r0, h0, self0)
             | Some blob \<Rightarrow>
                if blob = [] then Inr (r0, h0, self0)
                else (case json_loads L blob of
                        Inl e \<Rightarrow> if e = ValueError then Inr (r0, h0, self0) else Inl e
                      | Inr v \<Rightarrow>
                         (case alloc h0 v of (r1, h1) \<Rightarrow>
                            Inr (r1, h1, self0\<lparr>options_cached := Some r1\<rparr>)))))))"

text \<open>
  The setter (lines 119-123): the attribute \<^verbatim>\<open>_options_cached\<close> is deleted when
  present, and \<^verbatim>\<open>_options\<close> becomes the serialisation of \<open>opts\<close>. The setter only reads
  \<open>opts\<close>, so it takes its value. The deletion comes first; an exception of
  \<^verbatim>\<open>json.dumps\<close> leaves the setter.
\<close>

definition set_options :: "'n pylib \<Rightarrow> FormFieldModel \<Rightarrow> 'n json \<Rightarrow> error + FormFieldModel" where
  "set_options L self opts =
     (let self0 = self\<lparr>options_cached := None\<rparr> in
      case json_dumps L opts of
        Inl e \<Rightarrow> Inl e
      | Inr text \<Rightarrow> Inr (self0\<lparr>raw_options := Some text\<rparr>))"

text \<open>
  \<^verbatim>\<open>get_form_field_kwargs\<close> (lines 99-105). \<open>kwargs\<close> is the reference the getter
  returned; \<^verbatim>\<open>kwargs.update({'name': ..., 'label': ...})\<close> writes to the object it
  points to. Only a dict has \<^verbatim>\<open>update\<close>.
\<close>

definition get_form_field_kwargs ::
  "'n pylib \<Rightarrow> 'n heap \<times> FormFieldModel \<Rightarrow> error + (ref \<times> 'n heap \<times> FormFieldModel)" where
  "get_form_field_kwargs L s =
    (case options L s of
       Inl e \<Rightarrow> Inl e
     | Inr (kwargs, h1, self1) \<Rightarrow>
        (case deref h1 kwargs of
           JObj d \<Rightarrow>
             Inr (kwargs,
                  heap_store h1 kwargs
                    (JObj (dict_setitem (dict_setitem d ''name'' (JStr (name self1)))
                             ''label'' (JStr (label self1)))),
                  self1)
         | _ \<Rightarrow> Inl AttributeError))"

text \<open>
  \<^verbatim>\<open>generate_form_field\<close> (lines 93-97). The result holds the constructed field, the
  form as \<^verbatim>\<open>contribute_to_form\<close> left it, the store and the instance.
\<close>

definition generate_form_field ::
  "'n pylib \<Rightarrow> ('n, 'fld, 'frm) registry \<Rightarrow> 'n heap \<times> FormFieldModel \<Rightarrow> 'frm \<Rightarrow>
     error + ('fld \<times> 'frm \<times> 'n heap \<times> FormFieldModel)" where
  "generate_form_field L reg s form =
    (case formfield_registry_get reg (field_type (snd s)) of
       Inl e \<Rightarrow> Inl e
     | Inr cls \<Rightarrow>
        (case get_form_field_kwargs L s of
           Inl e \<Rightarrow> Inl e
         | Inr (kwargs, h1, self1) \<Rightarrow>
            (case deref h1 kwargs of
               JObj d \<Rightarrow>
                 (case construct cls d of
                    Inl e \<Rightarrow> Inl e
                  | Inr field \<Rightarrow>
                     (case contribute_to_form cls field form of
                        Inl e \<Rightarrow> Inl e
                      | Inr form' \<Rightarrow> Inr (field, form', h1, self1)))
             | _ \<Rightarrow> Inl TypeError)))"

text \<open>
  The set \<^verbatim>\<open>set(d.keys()) - set(field_type_cls._meta.keys())\<close> of \<^verbatim>\<open>save\<close>, listed
  without repetition.
\<close>

definition invalid_keys :: "string list \<Rightarrow> (string \<times> 'v) list \<Rightarrow> string list" where
  "invalid_keys schema d = filter (\<lambda>k. k \<notin> set schema) (remdups (dict_keys d))"

text \<open>
  The loop \<^verbatim>\<open>for key in invalid: del given_options[key]\<close> of \<^verbatim>\<open>save\<close>: each step
  changes the object \<open>given_options\<close> points to.
\<close>

fun del_keys :: "'n heap \<Rightarrow> ref \<Rightarrow> string list \<Rightarrow> error + 'n heap" where
  "del_keys h r [] = Inr h"
| "del_keys h r (k # ks) =
     (case deref h r of
        JObj g \<Rightarrow>
          (case dict_delitem g k of
             Inl e \<Rightarrow> Inl e
           | Inr g' \<Rightarrow> del_keys (heap_store h r (JObj g')) r ks)
      | _ \<Rightarrow> Inl TypeError)"

text \<open>
  \<^verbatim>\<open>FormFieldModel.save\<close> (lines 125-137). The options are read (line 129) before
  the registry is asked (line 130); only a dict has \<^verbatim>\<open>keys\<close>. The result is the store
  and the instance handed to \<^verbatim>\<open>super(FormFieldModel, self).save\<close>, whose columns are
  the row that is written; an exception leaves the method before anything is
  written.
\<close>

definition FormFieldModel_save ::
  "'n pylib \<Rightarrow> ('n, 'fld, 'frm) registry \<Rightarrow> 'n heap \<times> FormFieldModel \<Rightarrow>
     error + ('n heap \<times> FormFieldModel)" where
  "FormFieldModel_save L reg s =
    (case s of (h, self) \<Rightarrow>
      let self1 = (if name self = [] then self\<lparr>name := slugify L (label self)\<rparr> else self) in
      (case options L (h, self1) of
         Inl e \<Rightarrow> Inl e
       | Inr (given_options, h2, self2) \<Rightarrow>
          (case formfield_registry_get reg (field_type self2) of
             Inl e \<Rightarrow> Inl e
           | Inr cls \<Rightarrow>
              (case options L (h2, self2) of
                 Inl e \<Rightarrow> Inl e
               | Inr (r, h3, self3) \<Rightarrow>
                  (case deref h3 r of
                     JObj d \<Rightarrow>
                       let invalid = invalid_keys (meta_keys cls) d in
                       if invalid \<noteq> []
                       then (case del_keys h3 given_options invalid of
                               Inl e \<Rightarrow> Inl e
                             | Inr h4 \<Rightarrow>
                                (case set_options L self3 (deref h4 given_options) of
                                   Inl e \<Rightarrow> Inl e
                                 | Inr self4 \<Rightarrow> Inr (h4, self4)))
                       else Inr (h3, self3)
                   | _ \<Rightarrow> Inl AttributeError)))))"

text \<open>
  What the property \<^verbatim>\<open>options\<close> yields when it is read in a given state: the object
  behind the reference, or the exception.
\<close>

definition current_options :: "'n pylib \<Rightarrow> 'n heap \<times> FormFieldModel \<Rightarrow> error + 'n json" where
  "current_options L s =
     (case options L s of Inl e \<Rightarrow> Inl e | Inr (r, h, _) \<Rightarrow> Inr (deref h r))"

text \<open>
  What the property yields on an instance built from the columns alone, as the ORM
  builds it when it loads a row: no \<^verbatim>\<open>_options_cached\<close> attribute, an empty store.
  These are the options a row stores.
\<close>

definition loaded_options :: "'n pylib \<Rightarrow> FormFieldModel \<Rightarrow> error + 'n json" where
  "loaded_options L self = current_options L (empty_heap, self\<lparr>options_cached := None\<rparr>)"

text \<open>A dict without the keys that are outside a schema.\<close>

definition restrict_to :: "string list \<Rightarrow> (string \<times> 'v) list \<Rightarrow> (string \<times> 'v) list" where
  "restrict_to schema d = filter (\<lambda>kv. fst kv \<in> set schema) d"

text \<open>
  A value that \<^verbatim>\<open>json.dumps\<close> takes to a non-empty text which \<^verbatim>\<open>json.loads\<close> takes
  back to the value.
\<close>

definition json_representable :: "'n pylib \<Rightarrow> 'n json \<Rightarrow> bool" where
  "json_representable L v =
     (case json_dumps L v of
        Inl e \<Rightarrow> False
      | Inr text \<Rightarrow> text \<noteq> [] \<and> json_loads L text = Inr v)"

text \<open>
  The options an instance holds in memory agree with its column: reading the
  property gives what a freshly loaded copy of the row gives. This is so when there
  is no \<^verbatim>\<open>_options_cached\<close>, and the getter and the setter keep it so; assigning
  \<^verbatim>\<open>_options\<close> or changing the returned dict in place does not.
\<close>

definition cache_coherent :: "'n pylib \<Rightarrow> 'n heap \<times> FormFieldModel \<Rightarrow> bool" where
  "cache_coherent L s \<longleftrightarrow> current_options L s = loaded_options L (snd s)"

section \<open>The fields of a form\<close>

text \<open>
  The table of \<^verbatim>\<open>FormFieldModel\<close> is the list of its rows in the order of their
  creation. \<open>rows_of_form\<close> are the rows whose \<^verbatim>\<open>parent_form\<close> is the given form.
\<close>

definition rows_of_form :: "FormFieldModel list \<Rightarrow> FormModel \<Rightarrow> FormFieldModel list" where
  "rows_of_form table self = filter (\<lambda>f. parent_form f = form_pk self) table"

text \<open>
  \<^verbatim>\<open>self.fields\<close> is the reverse side of the foreign key \<^verbatim>\<open>parent_form\<close>
  (\<^verbatim>\<open>related_name='fields'\<close>): the rows of the form, in the order
  \<^verbatim>\<open>Meta.ordering = ['parent_form', 'position']\<close> (lines 81-82). The database sorts
  on these columns and on nothing else, so it may return rows of equal position in
  any order. \<open>fields_queryset table self rows\<close> says that \<open>rows\<close> is an answer the
  database may give.
\<close>

definition fields_queryset :: "FormFieldModel list \<Rightarrow> FormModel \<Rightarrow> FormFieldModel list \<Rightarrow> bool" where
  "fields_queryset table self rows \<longleftrightarrow>
     mset rows = mset (rows_of_form table self) \<and> sorted (map position rows)"

text \<open>\<^verbatim>\<open>values_list('name', 'label')\<close>: the two columns of each row.\<close>

definition values_list_name_label :: "FormFieldModel list \<Rightarrow> (string \<times> string) list" where
  "values_list_name_label rows = map (\<lambda>f. (name f, label f)) rows"

text \<open>
  \<^verbatim>\<open>get_fields_as_dict\<close> (lines 51-52), on the rows the queryset \<^verbatim>\<open>self.fields\<close>
  yields.
\<close>

definition get_fields_as_dict :: "FormFieldModel list \<Rightarrow> (string \<times> string) list" where
  "get_fields_as_dict rows = OrderedDict (values_list_name_label rows)"

text \<open>
  The order the fields would have with ties broken by creation: sorted by creation
  first, then stably by position.
\<close>

definition by_position_then_creation :: "FormFieldModel list \<Rightarrow> FormFieldModel list" where
  "by_position_then_creation rows = sort_key position (sort_key field_pk rows)"

section \<open>FormModelData\<close>

text \<open>
  The columns of \<^verbatim>\<open>FormModelData\<close> (lines 142-145); the column \<^verbatim>\<open>value\<close> is called
  \<open>stored_value\<close> here.
\<close>

record FormModelData =
  data_form :: "nat option"
  stored_value :: string
  submitted :: nat

text \<open>
  \<^verbatim>\<open>sorted(data.items())\<close>: the keys of a dict are distinct, so the order of the pairs
  is the order of their keys, and the sort never compares two values.
\<close>

definition sorted_items :: "(string \<times> 'v) list \<Rightarrow> (string \<times> 'v) list" where
  "sorted_items d = sort_key fst d"

text \<open>
  \<^verbatim>\<open>pretty_value\<close> (lines 157-169). The \<^verbatim>\<open>try\<close> block catches \<^verbatim>\<open>ValueError\<close> only:
  another exception of \<^verbatim>\<open>json.loads\<close> leaves the method, and so does the
  \<^verbatim>\<open>AttributeError\<close> that \<^verbatim>\<open>data.items()\<close> raises on a decoded value that is not a
  dict. \<^verbatim>\<open>mark_safe\<close> marks the string
  and leaves its characters as they are.
\<close>

definition pretty_value :: "'n pylib \<Rightarrow> FormModelData \<Rightarrow> error + string" where
  "pretty_value L self =
    (case json_loads L (stored_value self) of
       Inl e \<Rightarrow> if e = ValueError then Inr (stored_value self) else Inl e
     | Inr data \<Rightarrow>
        (case data of
           JObj d \<Rightarrow>
             Inr (concat ([''<dl>''] @
                          map (\<lambda>kv. ''<dt>'' @ escape L (fst kv) @ ''</dt><dd>'' @
                                     escape L (force_text L (snd kv)) @ ''</dd>'')
                              (sorted_items d) @
                          [''</dl>'']))
         | _ \<Rightarrow> Inl AttributeError))"

section \<open>A library for the examples\<close>

text \<open>
  The examples below run the model on concrete texts. For them the library functions
  are modelled on ASCII texts, with Python's ints as the numbers.
\<close>

definition is_digit :: "char \<Rightarrow> bool" where
  "is_digit c \<longleftrightarrow> CHR ''0'' \<le> c \<and> c \<le> CHR ''9''"

definition digits_val :: "string \<Rightarrow> int" where
  "digits_val ds = foldl (\<lambda>a c. 10 * a + (int (of_char c) - 48)) 0 ds"

definition starts_with :: "string \<Rightarrow> string \<Rightarrow> bool" where
  "starts_with p s \<longleftrightarrow> take (length p) s = p"

text \<open>The white space of JSON: space, tab, line feed, carriage return.\<close>

definition skip_ws :: "string \<Rightarrow> string" where
  "skip_ws s = dropWhile (\<lambda>c. c = CHR '' '' \<or> c = CHR 0x09 \<or> c = CHR 0x0A \<or> c = CHR 0x0D) s"

text \<open>
  The body of a JSON string, after its opening quote: the decoded characters and the
  text after the closing quote. A control character and an unknown escape are errors.
\<close>

definition unescape :: "char \<Rightarrow> char option" where
  "unescape e =
     (if e = CHR 0x22 then Some (CHR 0x22)
      else if e = CHR 0x5C then Some (CHR 0x5C)
      else if e = CHR ''/'' then Some (CHR ''/'')
      else if e = CHR ''b'' then Some (CHR 0x08)
      else if e = CHR ''f'' then Some (CHR 0x0C)
      else if e = CHR ''n'' then Some (CHR 0x0A)
      else if e = CHR ''r'' then Some (CHR 0x0D)
      else if e = CHR ''t'' then Some (CHR 0x09)
      else None)"

fun parse_string :: "string \<Rightarrow> (string \<times> string) option" where
  "parse_string [] = None"
| "parse_string [c] = (if c = CHR 0x22 then Some ([], []) else None)"
| "parse_string (c # e # cs) =
     (if c = CHR 0x22 then Some ([], e # cs)
      else if c = CHR 0x5C then
        (case unescape e of
           None \<Rightarrow> None
         | Some ch \<Rightarrow> map_option (\<lambda>p. (ch # fst p, snd p)) (parse_string cs))
      else if (of_char c :: nat) < 32 then None
      else map_option (\<lambda>p. (c # fst p, snd p)) (parse_string (e # cs)))"

text \<open>
  An integer literal: an optional minus sign, then \<open>0\<close> or a digit sequence that does
  not start with \<open>0\<close>. A literal followed by \<open>.\<close>, \<open>e\<close> or \<open>E\<close> is refused.
\<close>

definition parse_digits :: "string \<Rightarrow> (int \<times> string) option" where
  "parse_digits s =
     (case s of
        [] \<Rightarrow> None
      | c # cs \<Rightarrow>
         (let res = (if c = CHR ''0'' then Some (0, cs)
                     else if is_digit c
                     then Some (digits_val (takeWhile is_digit s), dropWhile is_digit s)
                     else None)
          in case res of
               None \<Rightarrow> None
             | Some (i, rest) \<Rightarrow>
                (case rest of
                   [] \<Rightarrow> Some (i, rest)
                 | x # _ \<Rightarrow>
                    if x = CHR ''.'' \<or> x = CHR ''e'' \<or> x = CHR ''E'' then None
                    else Some (i, rest))))"

definition parse_number :: "string \<Rightarrow> (int \<times> string) option" where
  "parse_number s =
     (case s of
        [] \<Rightarrow> None
      | c # cs \<Rightarrow>
         if c = CHR ''-'' then map_option (\<lambda>p. (- fst p, snd p)) (parse_digits cs)
         else parse_digits s)"

definition or_ValueError :: "'a option \<Rightarrow> error + 'a" where
  "or_ValueError x = (case x of None \<Rightarrow> Inl ValueError | Some y \<Rightarrow> Inr y)"

text \<open>
  The decoder proper. The first argument bounds the number of calls: every call
  passes on one less, and \<open>fragment_loads\<close> starts with twice the length of the text
  plus two. The second argument is the number of nested containers the interpreter
  still allows: the decoder enters an array or an object only if it is not zero, and
  raises \<^verbatim>\<open>RecursionError\<close> otherwise.
\<close>

fun parse_value :: "nat \<Rightarrow> nat \<Rightarrow> string \<Rightarrow> error + (int json \<times> string)"
  and parse_elements ::
    "nat \<Rightarrow> nat \<Rightarrow> string \<Rightarrow> int json list \<Rightarrow> error + (int json \<times> string)"
  and parse_members ::
    "nat \<Rightarrow> nat \<Rightarrow> string \<Rightarrow> (string \<times> int json) list \<Rightarrow> error + (int json \<times> string)"
where
  "parse_value 0 d s = Inl ValueError"
| "parse_value (Suc n) d s =
     (case skip_ws s of
        [] \<Rightarrow> Inl ValueError
      | c # cs \<Rightarrow>
         if c = CHR ''{'' then
           (case d of
              0 \<Rightarrow> Inl RecursionError
            | Suc d' \<Rightarrow>
               (case skip_ws cs of
                  [] \<Rightarrow> Inl ValueError
                | c' # cs' \<Rightarrow> if c' = CHR ''}'' then Inr (JObj [], cs')
                             else parse_members n d' (c' # cs') []))
         else if c = CHR ''['' then
           (case d of
              0 \<Rightarrow> Inl RecursionError
            | Suc d' \<Rightarrow>
               (case skip_ws cs of
                  [] \<Rightarrow> Inl ValueError
                | c' # cs' \<Rightarrow> if c' = CHR '']'' then Inr (JList [], cs')
                             else parse_elements n d' (c' # cs') []))
         else if c = CHR 0x22 then
           or_ValueError (map_option (\<lambda>p. (JStr (fst p), snd p)) (parse_string cs))
         else if starts_with ''null'' (c # cs) then Inr (JNull, drop 4 (c # cs))
         else if starts_with ''true'' (c # cs) then Inr (JBool True, drop 4 (c # cs))
         else if starts_with ''false'' (c # cs) then Inr (JBool False, drop 5 (c # cs))
         else or_ValueError (map_option (\<lambda>p. (JNum (fst p), snd p)) (parse_number (c # cs))))"
| "parse_elements 0 d s acc = Inl ValueError"
| "parse_elements (Suc n) d s acc =
     (case parse_value n d s of
        Inl e \<Rightarrow> Inl e
      | Inr (v, rest) \<Rightarrow>
         (case skip_ws rest of
            [] \<Rightarrow> Inl ValueError
          | c # cs \<Rightarrow>
             if c = CHR '']'' then Inr (JList (acc @ [v]), cs)
             else if c = CHR '','' then parse_elements n d cs (acc @ [v])
             else Inl ValueError))"
| "parse_members 0 d s acc = Inl ValueError"
| "parse_members (Suc n) d s acc =
     (case skip_ws s of
        [] \<Rightarrow> Inl ValueError
      | c # cs \<Rightarrow>
         if c \<noteq> CHR 0x22 then Inl ValueError
         else
           (case parse_string cs of
              None \<Rightarrow> Inl ValueError
            | Some (key, rest) \<Rightarrow>
               (case skip_ws rest of
                  [] \<Rightarrow> Inl ValueError
                | c1 # cs1 \<Rightarrow>
                   if c1 \<noteq> CHR '':'' then Inl ValueError
                   else
                     (case parse_value n d cs1 of
                        Inl e \<Rightarrow> Inl e
                      | Inr (v, rest2) \<Rightarrow>
                         (case skip_ws rest2 of
                            [] \<Rightarrow> Inl ValueError
                          | c2 # cs2 \<Rightarrow>
                             if c2 = CHR ''}'' then Inr (JObj (dict_setitem acc key v), cs2)
                             else if c2 = CHR '','' then
                               parse_members n d cs2 (dict_setitem acc key v)
                             else Inl ValueError)))))"

text \<open>
  CPython's recursion limit is 1000 frames unless the program changes it, and the
  decoder shares it with the frames of its callers. The model lets the decoder nest
  999 containers, which is more than the interpreter leaves it: a text that nests
  1000 containers raises \<^verbatim>\<open>RecursionError\<close> in both.
\<close>

definition max_nesting :: nat where
  "max_nesting = 999"

text \<open>
  \<^verbatim>\<open>json.loads\<close> on the fragment of JSON made of \<^verbatim>\<open>null\<close>, \<^verbatim>\<open>true\<close>, \<^verbatim>\<open>false\<close>,
  integers, strings without \<^verbatim>\<open>\u\<close> escapes, arrays and objects: the decoded value
  when the whole text is one value, \<^verbatim>\<open>ValueError\<close> when the text is not JSON,
  \<^verbatim>\<open>RecursionError\<close> when it nests too deep. Texts with other numbers, \<^verbatim>\<open>\u\<close>
  escapes or the literals \<^verbatim>\<open>NaN\<close> and \<^verbatim>\<open>Infinity\<close> are outside the fragment; the
  examples use none.
\<close>

definition fragment_loads :: "string \<Rightarrow> error + int json" where
  "fragment_loads s =
     (case parse_value (2 * length s + 2) max_nesting s of
        Inl e \<Rightarrow> Inl e
      | Inr (v, rest) \<Rightarrow> if skip_ws rest = [] then Inr v else Inl ValueError)"

text \<open>The decimal digits of a natural number and of an integer.\<close>

fun nat_str :: "nat \<Rightarrow> string" where
  "nat_str n =
     (if n < 10 then [char_of (48 + n)] else nat_str (n div 10) @ [char_of (48 + n mod 10)])"

definition int_str :: "int \<Rightarrow> string" where
  "int_str i = (if i < 0 then CHR ''-'' # nat_str (nat (- i)) else nat_str (nat i))"

definition hex_digit :: "nat \<Rightarrow> char" where
  "hex_digit n = (if n < 10 then char_of (48 + n) else char_of (87 + n))"

text \<open>
  A string as \<^verbatim>\<open>json.dumps\<close> writes it (ASCII): the quote and the backslash are
  escaped, the control characters are written as escapes.
\<close>

definition json_escape_char :: "char \<Rightarrow> string" where
  "json_escape_char c =
     (if c = CHR 0x22 then [CHR 0x5C, CHR 0x22]
      else if c = CHR 0x5C then [CHR 0x5C, CHR 0x5C]
      else if c = CHR 0x0A then [CHR 0x5C, CHR ''n'']
      else if c = CHR 0x0D then [CHR 0x5C, CHR ''r'']
      else if c = CHR 0x09 then [CHR 0x5C, CHR ''t'']
      else if c = CHR 0x08 then [CHR 0x5C, CHR ''b'']
      else if c = CHR 0x0C then [CHR 0x5C, CHR ''f'']
      else if (of_char c :: nat) < 32 \<or> (of_char c :: nat) = 127
      then [CHR 0x5C, CHR ''u'', CHR ''0'', CHR ''0'',
            hex_digit (of_char c div 16), hex_digit (of_char c mod 16)]
      else [c])"

definition json_quote :: "string \<Rightarrow> string" where
  "json_quote s = [CHR 0x22] @ concat (map json_escape_char s) @ [CHR 0x22]"

text \<open>\<^verbatim>\<open>', '.join(parts)\<close>.\<close>

fun join_comma :: "string list \<Rightarrow> string" where
  "join_comma [] = []"
| "join_comma [x] = x"
| "join_comma (x # y # ys) = x @ '', '' @ join_comma (y # ys)"

text \<open>
  The text \<^verbatim>\<open>json.dumps\<close> writes with its default separators, on the same fragment.
  The recursion limit of the encoder is not modelled: the examples encode dicts of
  numbers.
\<close>

fun fragment_dumps :: "int json \<Rightarrow> string" where
  "fragment_dumps JNull = ''null''"
| "fragment_dumps (JBool b) = (if b then ''true'' else ''false'')"
| "fragment_dumps (JNum i) = int_str i"
| "fragment_dumps (JStr s) = json_quote s"
| "fragment_dumps (JList xs) = ''['' @ join_comma (map fragment_dumps xs) @ '']''"
| "fragment_dumps (JObj d) =
     ''{'' @ join_comma (map (\<lambda>kv. json_quote (fst kv) @ '': '' @ fragment_dumps (snd kv)) d) @ ''}''"

text \<open>
  Django's \<^verbatim>\<open>slugify\<close> on an ASCII text: the characters other than letters, digits,
  underscores, white space and hyphens are removed, the white space at both ends is
  stripped, the letters are lowered, and each run of white space and hyphens becomes
  one hyphen.
\<close>

definition is_space :: "char \<Rightarrow> bool" where
  "is_space c \<longleftrightarrow> c = CHR '' '' \<or> (9 \<le> (of_char c :: nat) \<and> (of_char c :: nat) \<le> 13) \<or>
     (28 \<le> (of_char c :: nat) \<and> (of_char c :: nat) \<le> 31)"

definition is_word :: "char \<Rightarrow> bool" where
  "is_word c \<longleftrightarrow> (CHR ''a'' \<le> c \<and> c \<le> CHR ''z'') \<or> (CHR ''A'' \<le> c \<and> c \<le> CHR ''Z'') \<or>
     is_digit c \<or> c = CHR ''_''"

definition lower :: "char \<Rightarrow> char" where
  "lower c = (if CHR ''A'' \<le> c \<and> c \<le> CHR ''Z'' then char_of (of_char c + (32 :: nat)) else c)"

definition strip :: "string \<Rightarrow> string" where
  "strip s = rev (dropWhile is_space (rev (dropWhile is_space s)))"

text \<open>\<^verbatim>\<open>re.sub(r'[-\s]+', '-', value)\<close>: \<open>in_run\<close> says that the
  character before was part of the run being replaced.\<close>

fun hyphenate :: "bool \<Rightarrow> string \<Rightarrow> string" where
  "hyphenate in_run [] = []"
| "hyphenate in_run (c # cs) =
     (if is_space c \<or> c = CHR ''-''
      then (if in_run then hyphenate True cs else CHR ''-'' # hyphenate True cs)
      else c # hyphenate False cs)"

definition slugify_ascii :: "string \<Rightarrow> string" where
  "slugify_ascii s =
     hyphenate False (map lower (strip (filter (\<lambda>c. is_word c \<or> is_space c \<or> c = CHR ''-'') s)))"

text \<open>
  Django's \<^verbatim>\<open>escape\<close>: the five characters \<^verbatim>\<open>& < > " '\<close> are replaced by their
  entities.
\<close>

definition html_escape_char :: "char \<Rightarrow> string" where
  "html_escape_char c =
     (if c = CHR ''&'' then ''&amp;''
      else if c = CHR ''<'' then ''&lt;''
      else if c = CHR ''>'' then ''&gt;''
      else if c = CHR 0x22 then ''&quot;''
      else if c = CHR 0x27 then ''&#39;''
      else [c])"

definition html_escape :: "string \<Rightarrow> string" where
  "html_escape s = concat (map html_escape_char s)"

text \<open>
  Python's \<^verbatim>\<open>repr\<close> of a string (ASCII): single quotes, unless the string has a single
  quote and no double quote.
\<close>

definition repr_char :: "char \<Rightarrow> char \<Rightarrow> string" where
  "repr_char q c =
     (if c = q \<or> c = CHR 0x5C then [CHR 0x5C, c]
      else if c = CHR 0x0A then [CHR 0x5C, CHR ''n'']
      else if c = CHR 0x0D then [CHR 0x5C, CHR ''r'']
      else if c = CHR 0x09 then [CHR 0x5C, CHR ''t'']
      else if (of_char c :: nat) < 32 \<or> (of_char c :: nat) = 127
      then [CHR 0x5C, CHR ''x'', hex_digit (of_char c div 16), hex_digit (of_char c mod 16)]
      else [c])"

definition repr_str :: "string \<Rightarrow> string" where
  "repr_str s =
     (let q = (if CHR 0x27 \<in> set s \<and> CHR 0x22 \<notin> set s then CHR 0x22 else CHR 0x27)
      in [q] @ concat (map (repr_char q) s) @ [q])"

fun py_repr :: "int json \<Rightarrow> string" where
  "py_repr JNull = ''None''"
| "py_repr (JBool b) = (if b then ''True'' else ''False'')"
| "py_repr (JNum i) = int_str i"
| "py_repr (JStr s) = repr_str s"
| "py_repr (JList xs) = ''['' @ join_comma (map py_repr xs) @ '']''"
| "py_repr (JObj d) =
     ''{'' @ join_comma (map (\<lambda>kv. repr_str (fst kv) @ '': '' @ py_repr (snd kv)) d) @ ''}''"

text \<open>\<^verbatim>\<open>force_text\<close> on a decoded value: the string itself, otherwise what
  \<^verbatim>\<open>str\<close> prints.\<close>

definition py_str :: "int json \<Rightarrow> string" where
  "py_str v = (case v of JStr s \<Rightarrow> s | _ \<Rightarrow> py_repr v)"

definition example_lib :: "int pylib" where
  "example_lib =
     \<lparr>json_loads = fragment_loads, json_dumps = (\<lambda>v. Inr (fragment_dumps v)),
      slugify = slugify_ascii,
      escape = html_escape, force_text = py_str\<rparr>"

text \<open>
  A registry with one field type, \<open>text\<close>, whose option schema declares
  \<open>max_length\<close> only. A constructed field is its keyword arguments; a form is the
  list of the fields that contributed to it.
\<close>

definition text_field_cls ::
  "(int, (string \<times> int json) list, (string \<times> int json) list list) field_type_cls" where
  "text_field_cls =
     \<lparr>meta_keys = [''max_length''], construct = (\<lambda>kwargs. Inr kwargs),
      contribute_to_form = (\<lambda>field form. Inr (form @ [field]))\<rparr>"

definition example_registry ::
  "(int, (string \<times> int json) list, (string \<times> int json) list list) registry" where
  "example_registry = (\<lambda>key. if key = ''text'' then Some text_field_cls else None)"

text \<open>
  Four instances of \<^verbatim>\<open>FormFieldModel\<close> as the ORM loads them: one whose options
  hold a key outside the schema and whose name is empty, one whose options fit the
  schema, one whose column \<^verbatim>\<open>_options\<close> is not JSON, and one whose column is the
  text \<^verbatim>\<open>'[' * 1000 + ']' * 1000\<close>. The type of the last two is not registered.
\<close>

definition field_with_bogus :: FormFieldModel where
  \<open>field_with_bogus =
     \<lparr>field_pk = 1, parent_form = 1, field_type = ''text'', label = ''Full Name'', name = '''',
      raw_options = Some ''{"max_length": 50, "bogus": 1}'', position = 0,
      options_cached = None\<rparr>\<close>

definition field_clean :: FormFieldModel where
  \<open>field_clean =
     \<lparr>field_pk = 2, parent_form = 1, field_type = ''text'', label = ''Full Name'',
      name = ''full-name'', raw_options = Some ''{"max_length": 50}'', position = 1,
      options_cached = None\<rparr>\<close>

definition field_corrupt :: FormFieldModel where
  \<open>field_corrupt =
     \<lparr>field_pk = 3, parent_form = 1, field_type = ''date'', label = ''Born'',
      name = ''born'', raw_options = Some ''{not json'', position = 2,
      options_cached = None\<rparr>\<close>

definition deep_text :: string where
  "deep_text = replicate 1000 (CHR ''['') @ replicate 1000 (CHR '']'')"

definition field_nested :: FormFieldModel where
  "field_nested =
     \<lparr>field_pk = 4, parent_form = 1, field_type = ''date'', label = ''Born'',
      name = ''born'', raw_options = Some deep_text, position = 3,
      options_cached = None\<rparr>"

text \<open>
  A form with two fields of equal position, \<open>field_a\<close> created before \<open>field_b\<close>, and
  three stored submissions.
\<close>

definition contact_form :: FormModel where
  "contact_form =
     \<lparr>form_pk = 1, form_name = ''contact'', submit_url = ''/contact/'', success_url = '''',
      actions = [], form_template = ''dynamic_forms/form.html'',
      success_template = ''dynamic_forms/form_success.html''\<rparr>"

definition field_a :: FormFieldModel where
  "field_a =
     \<lparr>field_pk = 1, parent_form = 1, field_type = ''text'', label = ''A'', name = ''a'',
      raw_options = None, position = 0, options_cached = None\<rparr>"

definition field_b :: FormFieldModel where
  "field_b =
     \<lparr>field_pk = 2, parent_form = 1, field_type = ''text'', label = ''B'', name = ''b'',
      raw_options = None, position = 0, options_cached = None\<rparr>"

definition data_pairs :: FormModelData where
  \<open>data_pairs = \<lparr>data_form = Some 1, stored_value = ''{"b":"2","a":"1"}'', submitted = 0\<rparr>\<close>

definition data_invalid :: FormModelData where
  \<open>data_invalid = \<lparr>data_form = Some 1, stored_value = ''{not json'', submitted = 1\<rparr>\<close>

definition data_list :: FormModelData where
  \<open>data_list = \<lparr>data_form = Some 1, stored_value = ''[]'', submitted = 2\<rparr>\<close>

section \<open>Properties of FormModel.save\<close>

lemma endswith_append_self: "endswith (s @ suf) suf"
  by (simp add: endswith_def)

lemma endswith_slash_iff: "endswith s ''/'' \<longleftrightarrow> (s \<noteq> [] \<and> last s = CHR ''/'')"
proof (cases s rule: rev_cases)
  case Nil
  then show ?thesis by (simp add: endswith_def)
next
  case (snoc ys y)
  then show ?thesis by (simp add: endswith_def)
qed

lemma submit_url_FormModel_save:
  "submit_url (FormModel_save self) =
     (if endswith (submit_url self) ''/'' then submit_url self else submit_url self @ ''/'')"
  by (simp add: FormModel_save_def Let_def)

lemma success_url_FormModel_save:
  "success_url (FormModel_save self) =
     (if success_url self = [] then submit_url (FormModel_save self) @ ''done/''
      else if endswith (success_url self) ''/'' then success_url self
      else success_url self @ ''/'')"
  by (simp add: FormModel_save_def Let_def)

lemma FormModel_save_fixed:
  assumes "endswith (submit_url self) ''/''" and "endswith (success_url self) ''/''"
  shows "FormModel_save self = self"
proof -
  from assms(2) have "success_url self \<noteq> []"
    by (simp add: endswith_slash_iff)
  with assms show ?thesis
    by (simp add: FormModel_save_def Let_def)
qed

lemma FormModel_save_normal:
  "endswith (submit_url (FormModel_save self)) ''/'' \<and>
   endswith (success_url (FormModel_save self)) ''/''"
proof -
  have a: "endswith (submit_url (FormModel_save self)) ''/''"
    by (simp add: submit_url_FormModel_save endswith_append_self)
  have "endswith (x @ ''done/'') ''/''" for x :: string
    by (simp add: endswith_slash_iff)
  then have b: "endswith (success_url (FormModel_save self)) ''/''"
    by (simp add: success_url_FormModel_save endswith_append_self)
  from a b show ?thesis ..
qed

text \<open>
  C5. Persisting a form whose \<open>submit_url\<close> has no trailing slash appends exactly
  one \<open>/\<close> to it; a \<open>submit_url\<close> that already ends with a slash is left as it is; and
  persisting a second time changes nothing (the whole row is a fixed point).
\<close>

theorem C5_submit_url_trailing_slash:
  "(\<not> endswith (submit_url self) ''/'' \<longrightarrow>
      submit_url (FormModel_save self) = submit_url self @ ''/'') \<and>
   (endswith (submit_url self) ''/'' \<longrightarrow>
      submit_url (FormModel_save self) = submit_url self) \<and>
   FormModel_save (FormModel_save self) = FormModel_save self"
proof -
  have "FormModel_save (FormModel_save self) = FormModel_save self"
    using FormModel_save_normal [of self] by (simp add: FormModel_save_fixed)
  then show ?thesis
    by (simp add: submit_url_FormModel_save)
qed

theorem C5_witness:
  "submit_url (FormModel_save \<lparr>form_pk = 1, form_name = ''contact'', submit_url = ''/contact'',
      success_url = ''/thanks/'', actions = [], form_template = ''f.html'',
      success_template = ''s.html''\<rparr>) = ''/contact/'' \<and>
   submit_url (FormModel_save \<lparr>form_pk = 1, form_name = ''contact'', submit_url = ''/contact/'',
      success_url = ''/thanks/'', actions = [], form_template = ''f.html'',
      success_template = ''s.html''\<rparr>) = ''/contact/'' \<and>
   submit_url (FormModel_save \<lparr>form_pk = 1, form_name = ''contact'', submit_url = '''',
      success_url = '''', actions = [], form_template = ''f.html'',
      success_template = ''s.html''\<rparr>) = ''/''"
  using C5_submit_url_trailing_slash [of "\<lparr>form_pk = 1, form_name = ''contact'',
      submit_url = ''/contact'', success_url = ''/thanks/'', actions = [],
      form_template = ''f.html'', success_template = ''s.html''\<rparr>"]
    C5_submit_url_trailing_slash [of "\<lparr>form_pk = 1, form_name = ''contact'',
      submit_url = ''/contact/'', success_url = ''/thanks/'', actions = [],
      form_template = ''f.html'', success_template = ''s.html''\<rparr>"]
    C5_submit_url_trailing_slash [of "\<lparr>form_pk = 1, form_name = ''contact'',
      submit_url = '''', success_url = '''', actions = [],
      form_template = ''f.html'', success_template = ''s.html''\<rparr>"]
  by (simp add: FormModel_save_def Let_def endswith_def)

text \<open>
  C6. On every persist: an empty \<open>success_url\<close> becomes the persisted \<open>submit_url\<close>
  followed by \<open>done/\<close> (which is the given \<open>submit_url\<close> followed by \<open>done/\<close> when that
  already ends with a slash); a non-empty \<open>success_url\<close> ends with \<open>/\<close> afterwards, one
  \<open>/\<close> being appended when it was missing and nothing changed otherwise.
\<close>

theorem C6_success_url_derived:
  "(success_url self = [] \<longrightarrow>
      success_url (FormModel_save self) = submit_url (FormModel_save self) @ ''done/'' \<and>
      (endswith (submit_url self) ''/'' \<longrightarrow>
         success_url (FormModel_save self) = submit_url self @ ''done/'')) \<and>
   (success_url self \<noteq> [] \<longrightarrow>
      endswith (success_url (FormModel_save self)) ''/'' \<and>
      success_url (FormModel_save self) =
        (if endswith (success_url self) ''/'' then success_url self
         else success_url self @ ''/''))"
proof (cases "success_url self = []")
  case True
  then show ?thesis
    by (simp add: success_url_FormModel_save submit_url_FormModel_save)
next
  case False
  have "endswith (success_url (FormModel_save self)) ''/''"
    using FormModel_save_normal [of self] by blast
  with False show ?thesis
    by (simp add: success_url_FormModel_save)
qed

theorem C6_witness:
  "success_url (FormModel_save \<lparr>form_pk = 1, form_name = ''contact'', submit_url = ''/contact/'',
      success_url = '''', actions = [], form_template = ''f.html'',
      success_template = ''s.html''\<rparr>) = ''/contact/done/'' \<and>
   success_url (FormModel_save \<lparr>form_pk = 1, form_name = ''contact'', submit_url = ''/contact/'',
      success_url = ''/thanks'', actions = [], form_template = ''f.html'',
      success_template = ''s.html''\<rparr>) = ''/thanks/''"
  using C6_success_url_derived [of "\<lparr>form_pk = 1, form_name = ''contact'',
      submit_url = ''/contact/'', success_url = '''', actions = [],
      form_template = ''f.html'', success_template = ''s.html''\<rparr>"]
    C6_success_url_derived [of "\<lparr>form_pk = 1, form_name = ''contact'',
      submit_url = ''/contact/'', success_url = ''/thanks'', actions = [],
      form_template = ''f.html'', success_template = ''s.html''\<rparr>"]
  by (simp add: FormModel_save_def Let_def endswith_def)

section \<open>Properties of the options property\<close>

lemma deref_alloc:
  "alloc h v = (r, h') \<Longrightarrow> deref h' r = v"
  by (auto simp: alloc_def deref_def)

lemma deref_heap_store: "deref (heap_store h r v) r = v"
  by (simp add: heap_store_def deref_def)

lemma heap_store_twice: "heap_store (heap_store h r v) r w = heap_store h r w"
  by (simp add: heap_store_def)

lemma options_cache_hit:
  "options_cached self = Some r \<Longrightarrow> options L (h, self) = Inr (r, h, self)"
  by (simp add: options_def)

text \<open>
  The options a row stores: the empty dict when the column is null, is empty or
  raises \<^verbatim>\<open>ValueError\<close> in the decoder; the decoded value when there is one; and the
  exception when the decoder raises another one.
\<close>

lemma loaded_options_eq:
  "loaded_options L self =
     (case raw_options self of
        None \<Rightarrow> Inr (JObj [])
      | Some blob \<Rightarrow>
         if blob = [] then Inr (JObj [])
         else (case json_loads L blob of
                 Inl e \<Rightarrow> if e = ValueError then Inr (JObj []) else Inl e
               | Inr v \<Rightarrow> Inr v))"
  by (auto simp: loaded_options_def current_options_def options_def alloc_def deref_def
      Let_def split: option.splits sum.splits)

lemma loaded_options_cong:
  "raw_options self' = raw_options self \<Longrightarrow> loaded_options L self' = loaded_options L self"
  by (simp add: loaded_options_eq)

lemma options_cache_miss:
  assumes "options_cached self = None"
  shows "case loaded_options L self of
           Inl e \<Rightarrow> options L (h, self) = Inl e
         | Inr v \<Rightarrow>
             (\<exists>r h'. options L (h, self) = Inr (r, h', self\<lparr>options_cached := Some r\<rparr>) \<and>
                deref h' r = v)"
  using assms
  by (auto simp: loaded_options_eq options_def alloc_def deref_def Let_def
      split: option.splits sum.splits)

lemma current_options_no_cache:
  assumes "options_cached self = None"
  shows "current_options L (h, self) = loaded_options L self"
  using options_cache_miss [OF assms, of L h]
  by (auto simp: current_options_def split: sum.splits)

lemma current_options_cached:
  "options_cached self = Some r \<Longrightarrow> current_options L (h, self) = Inr (deref h r)"
  by (simp add: current_options_def options_cache_hit)

lemma options_instance:
  assumes "options L (h, self) = Inr (r, h', self')"
  shows "self' = self\<lparr>options_cached := Some r\<rparr>"
proof (cases "options_cached self")
  case None
  from options_cache_miss [OF None, of L h] assms show ?thesis
    by (auto split: sum.splits)
next
  case (Some c)
  from options_cache_hit [OF Some, of L h] assms show ?thesis
    using Some by auto
qed

lemma options_returns:
  assumes "current_options L (h, self) = Inr v"
  shows "\<exists>r h'. options L (h, self) = Inr (r, h', self\<lparr>options_cached := Some r\<rparr>) \<and>
           deref h' r = v"
proof (cases "options L (h, self)")
  case (Inl e)
  with assms show ?thesis
    by (simp add: current_options_def)
next
  case (Inr t)
  obtain r h' self' where t: "t = (r, h', self')"
    by (cases t) auto
  with Inr have o: "options L (h, self) = Inr (r, h', self')"
    by simp
  from options_instance [OF o] o assms show ?thesis
    by (auto simp: current_options_def)
qed

lemma options_raises:
  "current_options L s = Inl e \<Longrightarrow> options L s = Inl e"
  by (auto simp: current_options_def split: sum.splits)

lemma current_options_name:
  "current_options L (h, self\<lparr>name := n\<rparr>) = current_options L (h, self)"
proof (cases "options_cached self")
  case None
  then have "options_cached (self\<lparr>name := n\<rparr>) = None"
    by simp
  from current_options_no_cache [OF this, of L h] current_options_no_cache [OF None, of L h]
  show ?thesis
    using loaded_options_cong [of "self\<lparr>name := n\<rparr>" self L] by simp
next
  case (Some r)
  then have "options_cached (self\<lparr>name := n\<rparr>) = Some r"
    by simp
  from current_options_cached [OF this, of L h] current_options_cached [OF Some, of L h]
  show ?thesis
    by simp
qed

text \<open>
  Where the options in memory agree with the column: on an instance without a
  cache, after the getter, and after the setter.
\<close>

lemma cache_coherent_no_cache:
  "options_cached self = None \<Longrightarrow> cache_coherent L (h, self)"
  by (simp add: cache_coherent_def current_options_no_cache)

lemma cache_coherent_options:
  assumes "cache_coherent L (h, self)" and "options L (h, self) = Inr (r, h', self')"
  shows "cache_coherent L (h', self')"
proof -
  from options_instance [OF assms(2)] have s: "self' = self\<lparr>options_cached := Some r\<rparr>" .
  then have "current_options L (h', self') = Inr (deref h' r)"
    by (simp add: current_options_cached)
  also have "\<dots> = current_options L (h, self)"
    using assms(2) by (simp add: current_options_def)
  also have "\<dots> = loaded_options L self"
    using assms(1) by (simp add: cache_coherent_def)
  also have "\<dots> = loaded_options L self'"
    using s loaded_options_cong [of self' self L] by simp
  finally show ?thesis
    by (simp add: cache_coherent_def)
qed

lemma cache_coherent_set_options:
  assumes "set_options L self m = Inr self'"
  shows "cache_coherent L (h, self')"
proof -
  from assms have "options_cached self' = None"
    by (auto simp: set_options_def Let_def split: sum.splits)
  then show ?thesis
    by (rule cache_coherent_no_cache)
qed

lemma set_options_columns:
  assumes "set_options L self m = Inr self'"
  shows "name self' = name self \<and> label self' = label self \<and>
         field_type self' = field_type self \<and> position self' = position self \<and>
         parent_form self' = parent_form self \<and> field_pk self' = field_pk self"
  using assms
  by (cases "json_dumps L m") (auto simp: set_options_def Let_def)

section \<open>Properties of FormFieldModel.save\<close>

lemma dict_delitem_present:
  "k \<in> set (dict_keys g) \<Longrightarrow> dict_delitem g k = Inr (filter (\<lambda>kv. fst kv \<noteq> k) g)"
  by (simp add: dict_delitem_def)

lemma del_keys_present:
  assumes "deref h r = JObj g" and "set ks \<subseteq> set (dict_keys g)" and "distinct ks"
  shows "\<exists>h'. del_keys h r ks = Inr h' \<and>
               deref h' r = JObj (filter (\<lambda>kv. fst kv \<notin> set ks) g)"
  using assms
proof (induction ks arbitrary: h g)
  case Nil
  then show ?case by simp
next
  case (Cons k ks)
  let ?g = "filter (\<lambda>kv. fst kv \<noteq> k) g"
  let ?h = "heap_store h r (JObj ?g)"
  from Cons.prems have k: "k \<in> set (dict_keys g)" and nk: "k \<notin> set ks"
    and ks: "set ks \<subseteq> set (dict_keys g)" and d: "distinct ks"
    by auto
  have step: "del_keys h r (k # ks) = del_keys ?h r ks"
    using Cons.prems(1) k by (simp add: dict_delitem_present)
  have "deref ?h r = JObj ?g"
    by (rule deref_heap_store)
  moreover have "set ks \<subseteq> set (dict_keys ?g)"
    using ks nk by (auto simp: dict_keys_def)
  ultimately obtain h' where h': "del_keys ?h r ks = Inr h'"
    "deref h' r = JObj (filter (\<lambda>kv. fst kv \<notin> set ks) ?g)"
    using Cons.IH [of ?h ?g] d by blast
  have "filter (\<lambda>kv. fst kv \<notin> set ks) ?g = filter (\<lambda>kv. fst kv \<notin> set (k # ks)) g"
    by (induction g) auto
  with h' step show ?case
    by simp
qed

lemma restrict_to_invalid:
  "filter (\<lambda>kv. fst kv \<notin> set (invalid_keys S d)) d = restrict_to S d"
  unfolding restrict_to_def invalid_keys_def
  by (rule filter_cong) (auto simp: dict_keys_def)

lemma restrict_to_all_valid:
  assumes "invalid_keys S d = []"
  shows "restrict_to S d = d"
proof -
  from assms have "\<forall>k \<in> set (dict_keys d). k \<in> set S"
    by (simp add: invalid_keys_def filter_empty_conv)
  then show ?thesis
    by (simp add: dict_keys_def restrict_to_def)
qed

lemma map_of_restrict_to:
  "k \<in> set S \<Longrightarrow> map_of (restrict_to S d) k = map_of d k"
  unfolding restrict_to_def by (induction d) auto

lemma keys_restrict_to: "set (dict_keys (restrict_to S d)) \<subseteq> set S"
  by (auto simp: dict_keys_def restrict_to_def)


text \<open>
  What \<open>save\<close> does when the field type is registered and the options in memory are
  a dict \<open>d\<close>: with no invalid key the column is left as it is; otherwise the column
  becomes the serialisation of \<open>d\<close> restricted to the schema, and the cache is dropped.
\<close>

lemma FormFieldModel_save_registered:
  assumes reg: "reg (field_type self) = Some cls"
    and cur: "current_options L (h, self) = Inr (JObj d)"
    and dumps: "json_dumps L (JObj (restrict_to (meta_keys cls) d)) = Inr text"
  shows "\<exists>h' self'. FormFieldModel_save L reg (h, self) = Inr (h', self') \<and>
           name self' = (if name self = [] then slugify L (label self) else name self) \<and>
           (if invalid_keys (meta_keys cls) d = []
            then raw_options self' = raw_options self \<and>
                 current_options L (h', self') = Inr (JObj d)
            else raw_options self' = Some text \<and> options_cached self' = None)"
proof -
  define self1 where "self1 = (if name self = [] then self\<lparr>name := slugify L (label self)\<rparr> else self)"
  define invalid where "invalid = invalid_keys (meta_keys cls) d"
  have raw1: "raw_options self1 = raw_options self" and ft1: "field_type self1 = field_type self"
    and n1: "name self1 = (if name self = [] then slugify L (label self) else name self)"
    by (simp_all add: self1_def)
  have "current_options L (h, self1) = Inr (JObj d)"
    using cur by (simp add: self1_def current_options_name)
  from options_returns [OF this] obtain r h2 where
    o1: "options L (h, self1) = Inr (r, h2, self1\<lparr>options_cached := Some r\<rparr>)"
    and dr: "deref h2 r = JObj d"
    by blast
  let ?self2 = "self1\<lparr>options_cached := Some r\<rparr>"
  have o2: "options L (h2, ?self2) = Inr (r, h2, ?self2)"
    by (simp add: options_cache_hit)
  have g: "formfield_registry_get reg (field_type ?self2) = Inr cls"
    using reg ft1 by (simp add: formfield_registry_get_def)
  show ?thesis
  proof (cases "invalid = []")
    case True
    then have "FormFieldModel_save L reg (h, self) = Inr (h2, ?self2)"
      using o1 o2 g dr
      by (simp add: FormFieldModel_save_def self1_def [symmetric] invalid_def [symmetric] Let_def)
    moreover have "current_options L (h2, ?self2) = Inr (JObj d)"
      using dr by (simp add: current_options_cached)
    ultimately show ?thesis
      using True n1 raw1 by (simp add: invalid_def)
  next
    case False
    have "set invalid \<subseteq> set (dict_keys d)" and "distinct invalid"
      by (auto simp: invalid_def invalid_keys_def)
    from del_keys_present [OF dr this] obtain h4 where
      dk: "del_keys h2 r invalid = Inr h4"
      and d4: "deref h4 r = JObj (filter (\<lambda>kv. fst kv \<notin> set invalid) d)"
      by blast
    have "filter (\<lambda>kv. fst kv \<notin> set invalid) d = restrict_to (meta_keys cls) d"
      unfolding invalid_def by (rule restrict_to_invalid)
    with d4 have d4': "deref h4 r = JObj (restrict_to (meta_keys cls) d)"
      by simp
    let ?self4 = "?self2\<lparr>options_cached := None, raw_options := Some text\<rparr>"
    have "set_options L ?self2 (deref h4 r) = Inr ?self4"
      using d4' dumps by (simp add: set_options_def Let_def)
    then have "FormFieldModel_save L reg (h, self) = Inr (h4, ?self4)"
      using o1 o2 g dr dk False
      by (simp add: FormFieldModel_save_def self1_def [symmetric] invalid_def [symmetric] Let_def)
    then show ?thesis
      using False n1 by (simp add: invalid_def)
  qed
qed

text \<open>
  When the options are not a dict, \<^verbatim>\<open>self.options.keys()\<close> raises and nothing is
  written.
\<close>

lemma FormFieldModel_save_not_dict:
  assumes reg: "reg (field_type self) = Some cls"
    and cur: "current_options L (h, self) = Inr v"
    and nd: "\<And>d. v \<noteq> JObj d"
  shows "FormFieldModel_save L reg (h, self) = Inl AttributeError"
proof -
  define self1 where "self1 = (if name self = [] then self\<lparr>name := slugify L (label self)\<rparr> else self)"
  have ft1: "field_type self1 = field_type self"
    by (simp add: self1_def)
  have "current_options L (h, self1) = Inr v"
    using cur by (simp add: self1_def current_options_name)
  from options_returns [OF this] obtain r h2 where
    o1: "options L (h, self1) = Inr (r, h2, self1\<lparr>options_cached := Some r\<rparr>)"
    and dr: "deref h2 r = v"
    by blast
  let ?self2 = "self1\<lparr>options_cached := Some r\<rparr>"
  have o2: "options L (h2, ?self2) = Inr (r, h2, ?self2)"
    by (simp add: options_cache_hit)
  have g: "formfield_registry_get reg (field_type ?self2) = Inr cls"
    using reg ft1 by (simp add: formfield_registry_get_def)
  from nd dr have "\<And>d. deref h2 r \<noteq> JObj d"
    by simp
  then show ?thesis
    using o1 o2 g
    by (cases "deref h2 r")
      (auto simp: FormFieldModel_save_def self1_def [symmetric] Let_def)
qed

text \<open>How \<open>save\<close> can have persisted a field.\<close>

lemma save_unfold:
  "FormFieldModel_save L reg (h, self) =
    (let self1 = (if name self = [] then self\<lparr>name := slugify L (label self)\<rparr> else self) in
      (case options L (h, self1) of
         Inl e \<Rightarrow> Inl e
       | Inr (given_options, h2, self2) \<Rightarrow>
          (case formfield_registry_get reg (field_type self2) of
             Inl e \<Rightarrow> Inl e
           | Inr cls \<Rightarrow>
              (case options L (h2, self2) of
                 Inl e \<Rightarrow> Inl e
               | Inr (r, h3, self3) \<Rightarrow>
                  (case deref h3 r of
                     JObj d \<Rightarrow>
                       if invalid_keys (meta_keys cls) d \<noteq> []
                       then (case del_keys h3 given_options (invalid_keys (meta_keys cls) d) of
                               Inl e \<Rightarrow> Inl e
                             | Inr h4 \<Rightarrow>
                                (case set_options L self3 (deref h4 given_options) of
                                   Inl e \<Rightarrow> Inl e
                                 | Inr self4 \<Rightarrow> Inr (h4, self4)))
                       else Inr (h3, self3)
                   | _ \<Rightarrow> Inl AttributeError)))))"
  unfolding FormFieldModel_save_def Let_def by simp

lemma FormFieldModel_save_inversion:
  assumes "FormFieldModel_save L reg (h, self) = Inr (h', self')"
  obtains g h2 r self3 where
    "options L (h, if name self = [] then self\<lparr>name := slugify L (label self)\<rparr> else self) =
       Inr (g, h2, (if name self = [] then self\<lparr>name := slugify L (label self)\<rparr> else self)
                     \<lparr>options_cached := Some g\<rparr>)"
    and "self3 = (if name self = [] then self\<lparr>name := slugify L (label self)\<rparr> else self)
                     \<lparr>options_cached := Some r\<rparr>"
    and "self' = self3 \<or> (\<exists>v. set_options L self3 v = Inr self')"
proof -
  define self1 where "self1 = (if name self = [] then self\<lparr>name := slugify L (label self)\<rparr> else self)"
  have eq: "FormFieldModel_save L reg (h, self) =
      (case options L (h, self1) of
         Inl e \<Rightarrow> Inl e
       | Inr (given_options, h2, self2) \<Rightarrow>
          (case formfield_registry_get reg (field_type self2) of
             Inl e \<Rightarrow> Inl e
           | Inr cls \<Rightarrow>
              (case options L (h2, self2) of
                 Inl e \<Rightarrow> Inl e
               | Inr (r, h3, self3) \<Rightarrow>
                  (case deref h3 r of
                     JObj d \<Rightarrow>
                       if invalid_keys (meta_keys cls) d \<noteq> []
                       then (case del_keys h3 given_options (invalid_keys (meta_keys cls) d) of
                               Inl e \<Rightarrow> Inl e
                             | Inr h4 \<Rightarrow>
                                (case set_options L self3 (deref h4 given_options) of
                                   Inl e \<Rightarrow> Inl e
                                 | Inr self4 \<Rightarrow> Inr (h4, self4)))
                       else Inr (h3, self3)
                   | _ \<Rightarrow> Inl AttributeError))))"
    unfolding self1_def save_unfold Let_def by simp
  from assms eq obtain g h2 self2 where o1: "options L (h, self1) = Inr (g, h2, self2)"
    by (cases "options L (h, self1)") auto
  have s2: "self2 = self1\<lparr>options_cached := Some g\<rparr>"
    using o1 by (rule options_instance)
  from assms eq o1 obtain cls where g: "formfield_registry_get reg (field_type self2) = Inr cls"
    by (cases "formfield_registry_get reg (field_type self2)") auto
  from assms eq o1 g obtain r h3 self3 where o2: "options L (h2, self2) = Inr (r, h3, self3)"
    by (cases "options L (h2, self2)") auto
  have s3: "self3 = self2\<lparr>options_cached := Some r\<rparr>"
    using o2 by (rule options_instance)
  from assms eq o1 g o2 obtain d where d: "deref h3 r = JObj d"
    by (cases "deref h3 r") auto
  have "self' = self3 \<or> (\<exists>v. set_options L self3 v = Inr self')"
  proof (cases "invalid_keys (meta_keys cls) d = []")
    case True
    with assms eq o1 g o2 d show ?thesis by simp
  next
    case False
    with assms eq o1 g o2 d obtain h4 where
      "del_keys h3 g (invalid_keys (meta_keys cls) d) = Inr h4"
      by (cases "del_keys h3 g (invalid_keys (meta_keys cls) d)") auto
    with assms eq o1 g o2 d False show ?thesis
      by (cases "set_options L self3 (deref h4 g)") auto
  qed
  with o1 s2 s3 that show ?thesis
    by (simp add: self1_def)
qed

section \<open>The example library at work\<close>

lemma loads_bogus:
  \<open>fragment_loads ''{"max_length": 50, "bogus": 1}'' =
     Inr (JObj [(''max_length'', JNum 50), (''bogus'', JNum 1)])\<close>
  by code_simp

lemma loads_clean:
  \<open>fragment_loads ''{"max_length": 50}'' = Inr (JObj [(''max_length'', JNum 50)])\<close>
  by code_simp

lemma dumps_clean:
  \<open>fragment_dumps (JObj [(''max_length'', JNum 50)]) = ''{"max_length": 50}''\<close>
  by code_simp

lemma loads_corrupt: \<open>fragment_loads ''{not json'' = Inl ValueError\<close>
  by code_simp

lemma loads_list: \<open>fragment_loads ''[]'' = Inr (JList [])\<close>
  by code_simp

lemma loads_pairs:
  \<open>fragment_loads ''{"b":"2","a":"1"}'' = Inr (JObj [(''b'', JStr ''2''), (''a'', JStr ''1'')])\<close>
  by code_simp

lemma slugify_full_name: "slugify_ascii ''Full Name'' = ''full-name''"
  by code_simp

lemma representable_clean: "json_representable example_lib (JObj [(''max_length'', JNum 50)])"
  by (simp add: json_representable_def example_lib_def dumps_clean loads_clean
        del: fragment_dumps.simps)

text \<open>
  A text that opens more arrays than the decoder may nest raises
  \<^verbatim>\<open>RecursionError\<close>, whatever follows the brackets.
\<close>

lemma skip_ws_bracket: "skip_ws (CHR ''['' # s) = CHR ''['' # s"
  by (simp add: skip_ws_def)

lemma parse_value_deep_nest:
  "d < n \<Longrightarrow> 2 * d < fuel \<Longrightarrow>
   parse_value fuel d (replicate n (CHR ''['') @ t) = Inl RecursionError"
proof (induction d arbitrary: n fuel)
  case 0
  then obtain m f where "n = Suc m" and "fuel = Suc f"
    by (cases n; cases fuel) auto
  then show ?case
    by (simp add: skip_ws_bracket)
next
  case (Suc d)
  from Suc.prems obtain m where n: "n = Suc (Suc m)"
    by (cases n; cases "n - 1") auto
  from Suc.prems obtain f where fuel: "fuel = Suc (Suc f)"
    by (cases fuel; cases "fuel - 1") auto
  from Suc.prems n fuel have "d < Suc m" and "2 * d < f"
    by simp_all
  from Suc.IH [OF this]
  have ih: "parse_value f d (CHR ''['' # replicate m (CHR ''['') @ t) = Inl RecursionError"
    by simp
  have "parse_value (Suc (Suc f)) (Suc d) (CHR ''['' # CHR ''['' # replicate m (CHR ''['') @ t) =
        parse_elements (Suc f) d (CHR ''['' # replicate m (CHR ''['') @ t) []"
    by (simp add: skip_ws_bracket)
  also have "\<dots> = Inl RecursionError"
    using ih by simp
  finally show ?case
    using n fuel by simp
qed

lemma loads_deep_text: "fragment_loads deep_text = Inl RecursionError"
proof -
  have "parse_value (2 * length deep_text + 2) max_nesting deep_text = Inl RecursionError"
    unfolding deep_text_def max_nesting_def
    by (rule parse_value_deep_nest) simp_all
  then show ?thesis
    by (simp add: fragment_loads_def)
qed

lemma deep_text_not_empty: "deep_text \<noteq> []"
  by (simp add: deep_text_def)

text \<open>
  Saving the instance with the key \<open>bogus\<close>: the row that is written has the slug of
  the label as its name and the options without \<open>bogus\<close>.
\<close>

lemma save_field_with_bogus:
  \<open>map_sum id snd (FormFieldModel_save example_lib example_registry (empty_heap, field_with_bogus)) =
     Inr \<lparr>field_pk = 1, parent_form = 1, field_type = ''text'', label = ''Full Name'',
          name = ''full-name'', raw_options = Some ''{"max_length": 50}'', position = 0,
          options_cached = None\<rparr>\<close>
  by code_simp

section \<open>The claims about FormFieldModel\<close>

lemma FormFieldModel_save_columns:
  assumes "FormFieldModel_save L reg (h, self) = Inr (h', self')"
  shows "name self' = (if name self = [] then slugify L (label self) else name self) \<and>
         label self' = label self \<and> field_type self' = field_type self \<and>
         position self' = position self \<and> parent_form self' = parent_form self \<and>
         field_pk self' = field_pk self"
proof -
  from assms obtain self3 r where
    s3: "self3 = (if name self = [] then self\<lparr>name := slugify L (label self)\<rparr> else self)
                   \<lparr>options_cached := Some r\<rparr>"
    and w: "self' = self3 \<or> (\<exists>v. set_options L self3 v = Inr self')"
    by (rule FormFieldModel_save_inversion)
  from w show ?thesis
  proof
    assume "self' = self3"
    with s3 show ?thesis by simp
  next
    assume "\<exists>v. set_options L self3 v = Inr self'"
    then obtain v where "set_options L self3 v = Inr self'" ..
    from set_options_columns [OF this] s3 show ?thesis by simp
  qed
qed

text \<open>
  C1, as the code has it. Let the type of a field be registered with class \<open>cls\<close>,
  and let the options the field holds in memory (what the property \<open>options\<close>
  returns: the cached dict, or the decoded column when nothing is cached) be a dict
  \<open>d\<close> whose restriction to the schema of \<open>cls\<close> the JSON library takes to a text and
  back. Then \<open>save\<close> persists the field, and
  \<^item> if \<open>d\<close> has a key outside the schema, the stored options are \<open>d\<close> restricted to
    the schema;
  \<^item> if \<open>d\<close> has none, the column is written as it is;
  \<^item> so, if the options in memory agree with the column, the stored options are \<open>d\<close>
    restricted to the schema in both cases.
  The restriction has no key outside the schema and gives every key of the schema
  the value it has in \<open>d\<close>.
\<close>

theorem C1_saved_options_within_schema:
  assumes "reg (field_type self) = Some cls"
    and "current_options L (h, self) = Inr (JObj d)"
    and "json_representable L (JObj (restrict_to (meta_keys cls) d))"
  shows "\<exists>h' self'. FormFieldModel_save L reg (h, self) = Inr (h', self') \<and>
           (if invalid_keys (meta_keys cls) d = []
            then raw_options self' = raw_options self
            else loaded_options L self' = Inr (JObj (restrict_to (meta_keys cls) d))) \<and>
           (cache_coherent L (h, self) \<longrightarrow>
              loaded_options L self' = Inr (JObj (restrict_to (meta_keys cls) d))) \<and>
           set (dict_keys (restrict_to (meta_keys cls) d)) \<subseteq> set (meta_keys cls) \<and>
           (\<forall>k \<in> set (meta_keys cls).
              map_of (restrict_to (meta_keys cls) d) k = map_of d k)"
proof -
  let ?d' = "restrict_to (meta_keys cls) d"
  let ?invalid = "invalid_keys (meta_keys cls) d"
  from assms(3) obtain blob where dumps: "json_dumps L (JObj ?d') = Inr blob"
    and blob: "blob \<noteq> []" and loads: "json_loads L blob = Inr (JObj ?d')"
    by (auto simp: json_representable_def split: sum.splits)
  from FormFieldModel_save_registered [where reg = reg and self = self, OF assms(1,2) dumps]
  obtain h' self' where
    s: "FormFieldModel_save L reg (h, self) = Inr (h', self')"
    and raw: "if ?invalid = [] then raw_options self' = raw_options self
              else raw_options self' = Some blob"
    by (auto split: if_splits)
  have written: "loaded_options L self' = Inr (JObj ?d')" if "?invalid \<noteq> []"
  proof -
    from that raw have "raw_options self' = Some blob"
      by simp
    with blob loads show ?thesis
      by (simp add: loaded_options_eq)
  qed
  have kept: "raw_options self' = raw_options self" if "?invalid = []"
    using that raw by simp
  have coherent: "loaded_options L self' = Inr (JObj ?d')" if c: "cache_coherent L (h, self)"
  proof (cases "?invalid = []")
    case True
    from kept [OF True] have "loaded_options L self' = loaded_options L self"
      by (rule loaded_options_cong)
    also from c assms(2) have "\<dots> = Inr (JObj d)"
      by (simp add: cache_coherent_def)
    finally show ?thesis
      using True by (simp add: restrict_to_all_valid)
  next
    case False
    then show ?thesis
      by (rule written)
  qed
  have "\<forall>k \<in> set (meta_keys cls). map_of ?d' k = map_of d k"
    by (simp add: map_of_restrict_to)
  with s written kept coherent keys_restrict_to [of "meta_keys cls" d] show ?thesis
    by auto
qed

theorem C1_witness:
  "\<exists>h' self'. FormFieldModel_save example_lib example_registry (empty_heap, field_with_bogus) =
       Inr (h', self') \<and>
     loaded_options example_lib self' = Inr (JObj [(''max_length'', JNum 50)])"
proof -
  have 1: "example_registry (field_type field_with_bogus) = Some text_field_cls"
    by (simp add: example_registry_def field_with_bogus_def)
  have c: "cache_coherent example_lib (empty_heap, field_with_bogus)"
    by (simp add: cache_coherent_no_cache field_with_bogus_def)
  have "loaded_options example_lib field_with_bogus =
      Inr (JObj [(''max_length'', JNum 50), (''bogus'', JNum 1)])"
    by (simp add: loaded_options_eq field_with_bogus_def example_lib_def loads_bogus)
  with c have 2: "current_options example_lib (empty_heap, field_with_bogus) =
      Inr (JObj [(''max_length'', JNum 50), (''bogus'', JNum 1)])"
    by (simp add: cache_coherent_def)
  have r: "restrict_to (meta_keys text_field_cls)
      [(''max_length'', JNum 50), (''bogus'', JNum 1)] = [(''max_length'', JNum (50 :: int))]"
    by (simp add: restrict_to_def text_field_cls_def)
  have 3: "json_representable example_lib
      (JObj (restrict_to (meta_keys text_field_cls)
         [(''max_length'', JNum 50), (''bogus'', JNum 1)]))"
    using representable_clean by (simp only: r)
  from C1_saved_options_within_schema
    [where reg = example_registry and self = field_with_bogus, OF 1 2 3] c
  obtain h' self' where
    "FormFieldModel_save example_lib example_registry (empty_heap, field_with_bogus) =
       Inr (h', self')"
    and "loaded_options example_lib self' =
       Inr (JObj (restrict_to (meta_keys text_field_cls)
         [(''max_length'', JNum 50), (''bogus'', JNum 1)]))"
    by blast
  then show ?thesis
    by (simp only: r) blast
qed

text \<open>
  The claim as stated fails at an instance whose cache no longer agrees with its
  column. The row of \<open>field_clean\<close> is loaded and its options are read, which caches
  \<open>{max_length: 50}\<close>. In the first case the column \<^verbatim>\<open>_options\<close> is then assigned the
  text of \<open>field_with_bogus\<close>: the cached dict has no invalid key, \<open>save\<close> writes the
  column as it is, and the stored options hold \<open>bogus\<close>. In the second case the
  returned dict is changed in place to \<open>{max_length: 100}\<close>: \<open>save\<close> again writes the
  column as it is, and the stored \<open>max_length\<close> is 50.
\<close>

theorem C1_counterexample:
  "(case options example_lib (empty_heap, field_clean) of
      Inl e \<Rightarrow> False
    | Inr (r, h1, self1) \<Rightarrow>
        (case FormFieldModel_save example_lib example_registry
                (h1, self1\<lparr>raw_options := raw_options field_with_bogus\<rparr>) of
           Inl e \<Rightarrow> False
         | Inr (h', self') \<Rightarrow>
             loaded_options example_lib self' =
               Inr (JObj [(''max_length'', JNum 50), (''bogus'', JNum 1)])) \<and>
        (case FormFieldModel_save example_lib example_registry
                (heap_store h1 r (JObj [(''max_length'', JNum 100)]), self1) of
           Inl e \<Rightarrow> False
         | Inr (h', self') \<Rightarrow>
             current_options example_lib (h', self') = Inr (JObj [(''max_length'', JNum 100)]) \<and>
             loaded_options example_lib self' = Inr (JObj [(''max_length'', JNum 50)])))"
  by code_simp

text \<open>
  C2. The column of \<open>field_nested\<close> is the text \<^verbatim>\<open>'[' * 1000 + ']' * 1000\<close>. The decoder
  raises \<^verbatim>\<open>RecursionError\<close> on it, which is not a \<^verbatim>\<open>ValueError\<close>, and reading the
  property \<open>options\<close> raises it. On the column \<open>{not json\<close> of \<open>field_corrupt\<close>, where
  the decoder raises \<^verbatim>\<open>ValueError\<close>, the property is the empty dict.
\<close>

theorem C2_options_raises_on_deep_nesting:
  "options example_lib (empty_heap, field_nested) = Inl RecursionError \<and>
   current_options example_lib (empty_heap, field_corrupt) = Inr (JObj [])"
proof -
  have "loaded_options example_lib field_nested = Inl RecursionError"
    by (simp add: loaded_options_eq field_nested_def example_lib_def loads_deep_text
        deep_text_not_empty)
  then have "current_options example_lib (empty_heap, field_nested) = Inl RecursionError"
    by (simp add: current_options_no_cache field_nested_def)
  then have "options example_lib (empty_heap, field_nested) = Inl RecursionError"
    by (rule options_raises)
  moreover have "loaded_options example_lib field_corrupt = Inr (JObj [])"
    by (simp add: loaded_options_eq field_corrupt_def example_lib_def loads_corrupt)
  then have "current_options example_lib (empty_heap, field_corrupt) = Inr (JObj [])"
    by (simp add: current_options_no_cache field_corrupt_def)
  ultimately show ?thesis
    by simp
qed

text \<open>
  C7. When \<open>save\<close> persists a field, the name of the written row is the slug of the
  label if the name was empty, and the name as it was otherwise. (\<open>slugify\<close> is
  Django's; on the label \<open>Full Name\<close> the model of it gives \<open>full-name\<close>, as the
  witness shows.)
\<close>

theorem C7_name_from_label:
  assumes "FormFieldModel_save L reg (h, self) = Inr (h', self')"
  shows "name self' = (if name self = [] then slugify L (label self) else name self)"
  using FormFieldModel_save_columns [OF assms] by blast

theorem C7_witness:
  "\<exists>h' self'. FormFieldModel_save example_lib example_registry (empty_heap, field_with_bogus) =
       Inr (h', self') \<and>
     name self' = ''full-name''"
proof -
  obtain h' self' where s:
    "FormFieldModel_save example_lib example_registry (empty_heap, field_with_bogus) = Inr (h', self')"
    using save_field_with_bogus
    by (cases "FormFieldModel_save example_lib example_registry (empty_heap, field_with_bogus)") auto
  from C7_name_from_label [OF s] have "name self' = ''full-name''"
    by (simp add: field_with_bogus_def example_lib_def slugify_full_name)
  with s show ?thesis
    by blast
qed




text \<open>
  C10. Assigning a value \<open>m\<close> that the JSON library takes to a text and back, and then
  reading the property, yields an object equal to \<open>m\<close>, whatever the instance and its
  cache were before.
\<close>

theorem C10_options_roundtrip:
  assumes "json_representable L m"
  shows "\<exists>self1 r h'. set_options L self m = Inr self1 \<and>
           options L (h, self1) = Inr (r, h', self1\<lparr>options_cached := Some r\<rparr>) \<and>
           deref h' r = m"
proof -
  from assms obtain blob where dumps: "json_dumps L m = Inr blob"
    and blob: "blob \<noteq> []" and loads: "json_loads L blob = Inr m"
    by (auto simp: json_representable_def split: sum.splits)
  let ?self1 = "self\<lparr>options_cached := None, raw_options := Some blob\<rparr>"
  have s: "set_options L self m = Inr ?self1"
    using dumps by (simp add: set_options_def Let_def)
  have "options_cached ?self1 = None"
    by simp
  from options_cache_miss [OF this, of L h] blob loads
  have "\<exists>r h'. options L (h, ?self1) = Inr (r, h', ?self1\<lparr>options_cached := Some r\<rparr>) \<and>
      deref h' r = m"
    by (simp add: loaded_options_eq)
  with s show ?thesis
    by blast
qed

theorem C10_witness:
  "\<exists>self1 r h'. set_options example_lib field_with_bogus (JObj [(''max_length'', JNum 50)]) =
       Inr self1 \<and>
     options example_lib (empty_heap, self1) = Inr (r, h', self1\<lparr>options_cached := Some r\<rparr>) \<and>
     deref h' r = JObj [(''max_length'', JNum 50)]"
  using C10_options_roundtrip [OF representable_clean] by blast

text \<open>
  What \<open>get_form_field_kwargs\<close> does to an instance whose options are a dict \<open>d\<close>: the
  object the cache points to afterwards is \<open>d\<close> with the keys \<open>name\<close> and \<open>label\<close> set.
\<close>

lemma get_form_field_kwargs_writes_cache:
  assumes "current_options L (h, self) = Inr (JObj d)"
  shows "\<exists>r h'. get_form_field_kwargs L (h, self) =
             Inr (r, h', self\<lparr>options_cached := Some r\<rparr>) \<and>
           deref h' r =
             JObj (dict_setitem (dict_setitem d ''name'' (JStr (name self)))
                     ''label'' (JStr (label self)))"
proof -
  from options_returns [OF assms] obtain r h1 where
    o: "options L (h, self) = Inr (r, h1, self\<lparr>options_cached := Some r\<rparr>)"
    and dr: "deref h1 r = JObj d"
    by blast
  then show ?thesis
    by (simp add: get_form_field_kwargs_def deref_heap_store)
qed

text \<open>
  C4. The instance \<open>field_clean\<close> has the options \<open>{max_length: 50}\<close>. After
  \<open>generate_form_field\<close> the column \<^verbatim>\<open>_options\<close> is as before, but the property
  \<open>options\<close> yields a dict that also holds the keys \<open>name\<close> and \<open>label\<close>:
  \<open>get_form_field_kwargs\<close> updates the cached dict itself.
\<close>

theorem C4_generate_form_field_changes_options:
  "current_options example_lib (empty_heap, field_clean) = Inr (JObj [(''max_length'', JNum 50)]) \<and>
   (case generate_form_field example_lib example_registry (empty_heap, field_clean)
           ([] :: (string \<times> int json) list list) of
      Inl e \<Rightarrow> False
    | Inr (field, form', h1, self1) \<Rightarrow>
        raw_options self1 = raw_options field_clean \<and>
        current_options example_lib (h1, self1) =
          Inr (JObj [(''max_length'', JNum 50), (''name'', JStr ''full-name''),
                     (''label'', JStr ''Full Name'')]))"
  by code_simp

section \<open>Properties of pretty_value\<close>

lemma pretty_value_undecodable:
  "json_loads L (stored_value self) = Inl ValueError \<Longrightarrow>
   pretty_value L self = Inr (stored_value self)"
  by (simp add: pretty_value_def)

lemma pretty_value_other_exception:
  "json_loads L (stored_value self) = Inl e \<Longrightarrow> e \<noteq> ValueError \<Longrightarrow>
   pretty_value L self = Inl e"
  by (simp add: pretty_value_def)

lemma sorted_items_sorted:
  "sorted (map fst (sorted_items d)) \<and> mset (sorted_items d) = mset d"
  by (simp add: sorted_items_def)

lemma pretty_value_dict:
  assumes "json_loads L (stored_value self) = Inr (JObj d)"
  shows "pretty_value L self =
           Inr (''<dl>'' @
                concat (map (\<lambda>kv. ''<dt>'' @ escape L (fst kv) @ ''</dt><dd>'' @
                                   escape L (force_text L (snd kv)) @ ''</dd>'')
                            (sorted_items d)) @
                ''</dl>'')"
  using assms by (simp add: pretty_value_def)

lemma pretty_value_not_dict:
  assumes "json_loads L (stored_value self) = Inr v" and "\<And>d. v \<noteq> JObj d"
  shows "pretty_value L self = Inl AttributeError"
  using assms by (cases v) (auto simp: pretty_value_def)

text \<open>
  C3. On the stored value \<open>{"b":"2","a":"1"}\<close> the method renders the pair of \<open>a\<close>
  before the pair of \<open>b\<close>; on the stored value \<open>{not json\<close> it returns the stored
  string; on the stored value \<open>[]\<close>, which is JSON but not a mapping, it raises
  \<^verbatim>\<open>AttributeError\<close>.
\<close>

theorem C3_pretty_value_raises_on_list:
  "pretty_value example_lib data_pairs = Inr ''<dl><dt>a</dt><dd>1</dd><dt>b</dt><dd>2</dd></dl>'' \<and>
   pretty_value example_lib data_invalid = Inr (stored_value data_invalid) \<and>
   pretty_value example_lib data_list = Inl AttributeError"
  by code_simp

section \<open>Properties of get_fields_as_dict\<close>

lemma dict_setitem_new:
  "k \<notin> set (map fst d) \<Longrightarrow> dict_setitem d k v = d @ [(k, v)]"
  by (induction d) auto

lemma fold_dict_setitem_distinct:
  "distinct (map fst (acc @ ps)) \<Longrightarrow>
   fold (\<lambda>kv d. dict_setitem d (fst kv) (snd kv)) ps acc = acc @ ps"
proof (induction ps arbitrary: acc)
  case Nil
  then show ?case by simp
next
  case (Cons p ps)
  from Cons.prems have "fst p \<notin> set (map fst acc)"
    by auto
  then have "dict_setitem acc (fst p) (snd p) = acc @ [p]"
    by (simp add: dict_setitem_new)
  moreover from Cons.prems have "distinct (map fst ((acc @ [p]) @ ps))"
    by simp
  ultimately show ?case
    using Cons.IH [of "acc @ [p]"] by simp
qed

lemma OrderedDict_distinct:
  "distinct (map fst ps) \<Longrightarrow> OrderedDict ps = ps"
  using fold_dict_setitem_distinct [of "[]" ps] by (simp add: OrderedDict_def)

lemma filter_same_key_distinct:
  assumes "distinct (map f xs)" and "k \<in> set xs"
  shows "filter (\<lambda>x. f k = f x) xs = [k]"
  using assms
proof (induction xs)
  case Nil
  then show ?case by simp
next
  case (Cons x xs)
  show ?case
  proof (cases "x = k")
    case True
    with Cons.prems(1) have "\<forall>y \<in> set xs. f k \<noteq> f y"
      by auto
    then have "filter (\<lambda>x. f k = f x) xs = []"
      by (simp add: filter_empty_conv)
    with True show ?thesis by simp
  next
    case False
    with Cons.prems have kx: "k \<in> set xs" and dx: "distinct (map f xs)"
      by auto
    from kx have "f k \<in> set (map f xs)"
      by simp
    moreover from Cons.prems(1) have "f x \<notin> set (map f xs)"
      by simp
    ultimately have "f k \<noteq> f x"
      by metis
    with Cons.IH [OF dx kx] show ?thesis by simp
  qed
qed

lemma sorted_distinct_keys_unique:
  assumes "mset ys = mset xs" and "distinct (map f xs)" and "sorted (map f ys)"
  shows "sort_key f xs = ys"
proof (rule properties_for_sort_key)
  show "mset ys = mset xs" by fact
  show "sorted (map f ys)" by fact
  fix k assume k: "k \<in> set ys"
  from assms(1) have "mset (map f ys) = mset (map f xs)"
    by simp
  with assms(2) have dy: "distinct (map f ys)"
    by (metis distinct_count_atmost_1 set_mset_mset)
  from k assms(1) have kx: "k \<in> set xs"
    by (metis mset_eq_setD)
  show "filter (\<lambda>x. f k = f x) ys = filter (\<lambda>x. f k = f x) xs"
    by (simp add: filter_same_key_distinct [OF dy k] filter_same_key_distinct [OF assms(2) kx])
qed

text \<open>
  C8, as the code has it. For every answer \<open>rows\<close> the database may give for the
  fields of a form, with the names distinct as \<^verbatim>\<open>unique_together\<close> demands:
  \<open>get_fields_as_dict\<close> lists the pair of name and label of each field of the form,
  in the order of \<open>rows\<close>, which is ascending in the position. When no two fields of
  the form have the same position, that order is the one by position and then
  creation.
\<close>

theorem C8_fields_in_position_order:
  assumes "fields_queryset table self rows" and "distinct (map name rows)"
  shows "get_fields_as_dict rows = values_list_name_label rows \<and>
         sorted (map position rows) \<and>
         mset rows = mset (rows_of_form table self) \<and>
         (distinct (map position (rows_of_form table self)) \<longrightarrow>
            rows = by_position_then_creation (rows_of_form table self))"
proof -
  let ?fs = "rows_of_form table self"
  have "distinct (map fst (values_list_name_label rows))"
    using assms(2) by (simp add: values_list_name_label_def comp_def)
  then have a: "get_fields_as_dict rows = values_list_name_label rows"
    by (simp add: get_fields_as_dict_def OrderedDict_distinct)
  from assms(1) have b: "sorted (map position rows)" and c: "mset rows = mset ?fs"
    by (simp_all add: fields_queryset_def)
  have d: "rows = by_position_then_creation ?fs" if dist: "distinct (map position ?fs)"
  proof -
    have m: "mset rows = mset (sort_key field_pk ?fs)"
      using c by simp
    have "mset (map position (sort_key field_pk ?fs)) = mset (map position ?fs)"
      by simp
    with dist have "distinct (map position (sort_key field_pk ?fs))"
      by (metis distinct_count_atmost_1 set_mset_mset)
    from sorted_distinct_keys_unique [OF m this b] show ?thesis
      by (simp add: by_position_then_creation_def)
  qed
  from a b c d show ?thesis
    by blast
qed

theorem C8_witness:
  "get_fields_as_dict [field_a, field_clean] = [(''a'', ''A''), (''full-name'', ''Full Name'')] \<and>
   [field_a, field_clean] = by_position_then_creation (rows_of_form [field_clean, field_a] contact_form)"
proof -
  have 1: "fields_queryset [field_clean, field_a] contact_form [field_a, field_clean]"
    by (simp add: fields_queryset_def rows_of_form_def field_a_def field_clean_def contact_form_def)
  have 2: "distinct (map name [field_a, field_clean])"
    by (simp add: field_a_def field_clean_def)
  have 3: "distinct (map position (rows_of_form [field_clean, field_a] contact_form))"
    by (simp add: rows_of_form_def field_a_def field_clean_def contact_form_def)
  from C8_fields_in_position_order [OF 1 2] 3
  have a: "get_fields_as_dict [field_a, field_clean] = values_list_name_label [field_a, field_clean]"
    and b: "[field_a, field_clean] =
      by_position_then_creation (rows_of_form [field_clean, field_a] contact_form)"
    by blast+
  have "values_list_name_label [field_a, field_clean] = [(''a'', ''A''), (''full-name'', ''Full Name'')]"
    by (simp add: values_list_name_label_def field_a_def field_clean_def)
  with a have "get_fields_as_dict [field_a, field_clean] = [(''a'', ''A''), (''full-name'', ''Full Name'')]"
    by (simp only:)
  with b show ?thesis
    by blast
qed

text \<open>
  The claim as stated fails: \<open>field_a\<close> was created before \<open>field_b\<close> and both have
  position 0. The database may answer with \<open>field_b\<close> first, and then
  \<open>get_fields_as_dict\<close> lists \<open>b\<close> before \<open>a\<close>, while the order by position and then
  creation lists \<open>a\<close> before \<open>b\<close>.
\<close>

theorem C8_counterexample:
  "fields_queryset [field_a, field_b] contact_form [field_b, field_a] \<and>
   get_fields_as_dict [field_b, field_a] = [(''b'', ''B''), (''a'', ''A'')] \<and>
   values_list_name_label
     (by_position_then_creation (rows_of_form [field_a, field_b] contact_form)) =
     [(''a'', ''A''), (''b'', ''B'')]"
  by (simp add: fields_queryset_def rows_of_form_def get_fields_as_dict_def OrderedDict_def
      values_list_name_label_def by_position_then_creation_def field_a_def field_b_def
      contact_form_def)

end
